theory Spec2Isabelle
  imports Complex_Main "HOL-Library.AList" "HOL-Library.Multiset"
begin

section \<open>JavaScript numbers\<close>

text \<open>
  A JavaScript \<open>number\<close>: NaN, the two infinities, or a finite value. Finite values are
  modelled as reals, a superset of the finite doubles, so a statement about every
  \<open>Fin r\<close> covers every finite double; \<open>+0\<close> and \<open>-0\<close> are both \<open>Fin 0\<close> (they compare
  equal and are both falsy). Only comparisons and truthiness are defined here: the
  rounding arithmetic of doubles is a parameter of the code that uses it.
\<close>

datatype jsnum = NaN | NegInf | Fin real | PosInf

text \<open>The relational operators \<open><\<close> and \<open><=\<close> on numbers: false as soon as one side is NaN.\<close>

fun js_lt :: "jsnum \<Rightarrow> jsnum \<Rightarrow> bool" where
  "js_lt NaN _ = False"
| "js_lt _ NaN = False"
| "js_lt NegInf NegInf = False"
| "js_lt NegInf _ = True"
| "js_lt (Fin a) (Fin b) = (a < b)"
| "js_lt (Fin a) PosInf = True"
| "js_lt (Fin a) NegInf = False"
| "js_lt PosInf _ = False"

fun js_le :: "jsnum \<Rightarrow> jsnum \<Rightarrow> bool" where
  "js_le NaN _ = False"
| "js_le _ NaN = False"
| "js_le NegInf _ = True"
| "js_le (Fin a) (Fin b) = (a \<le> b)"
| "js_le (Fin a) PosInf = True"
| "js_le (Fin a) NegInf = False"
| "js_le PosInf PosInf = True"
| "js_le PosInf _ = False"

definition js_gt :: "jsnum \<Rightarrow> jsnum \<Rightarrow> bool" where
  "js_gt a b = js_lt b a"

text \<open>
  A property read off an object is a number or \<open>undefined\<close> (\<open>None\<close>). \<open>truthy\<close> is
  ToBoolean: \<open>undefined\<close>, NaN and zero are falsy. \<open>to_number\<close> is ToNumber, which a
  relational operator applies to its operands: \<open>undefined\<close> becomes NaN.
\<close>

fun truthy :: "jsnum option \<Rightarrow> bool" where
  "truthy None = False"
| "truthy (Some NaN) = False"
| "truthy (Some (Fin r)) = (r \<noteq> 0)"
| "truthy (Some NegInf) = True"
| "truthy (Some PosInf) = True"

fun to_number :: "jsnum option \<Rightarrow> jsnum" where
  "to_number None = NaN"
| "to_number (Some n) = n"

text \<open>\<open>v || 0\<close>: the value itself when it is truthy, else the number 0.\<close>

definition or_zero :: "jsnum option \<Rightarrow> jsnum" where
  "or_zero v = (if truthy v then to_number v else Fin 0)"


section \<open>The Measurement record\<close>

text \<open>
  The fields of \<open>Measurement\<close> that the code reads or writes. \<open>date\<close> is the time value of
  the \<open>Date\<close> object in milliseconds; \<open>metabolicAge\<close> may hold \<open>undefined\<close>. The field
  \<open>id\<close> is written \<open>id'\<close>. A date is a timestamp, as \<open>new Date()\<close> gives one; an
  invalid \<open>Date\<close>, whose time value is NaN, is outside the model: with it the comparator
  of \<open>getLatestMeasurement\<close> is not consistent and ECMAScript leaves the sorted order to
  the implementation.
\<close>

record Measurement =
  id' :: string
  userId :: string
  date :: int
  weight :: jsnum
  bodyFatMass :: jsnum
  bodyFatPercentage :: jsnum
  skeletalMuscleMass :: jsnum
  bmi :: jsnum
  pbf :: jsnum
  visceralFat :: jsnum
  waterPercentage :: jsnum
  basalMetabolicRate :: jsnum
  metabolicAge :: "jsnum option"


section \<open>Array.prototype.sort\<close>

text \<open>
  \<open>xs.sort(cmp)\<close> is a stable sort: \<open>a\<close> comes before \<open>b\<close> when \<open>cmp(a, b) < 0\<close>, after it
  when \<open>cmp(a, b) > 0\<close>, and elements that compare 0 keep their order. For a consistent
  comparator that fixes the result, computed here by stable insertion; only the sign of
  the comparator's value is used.
\<close>

fun sort_insert :: "('a \<Rightarrow> 'a \<Rightarrow> int) \<Rightarrow> 'a \<Rightarrow> 'a list \<Rightarrow> 'a list" where
  "sort_insert cmp x [] = [x]"
| "sort_insert cmp x (y # ys) =
     (if cmp x y \<le> 0 then x # y # ys else y # sort_insert cmp x ys)"

definition sort_js :: "('a \<Rightarrow> 'a \<Rightarrow> int) \<Rightarrow> 'a list \<Rightarrow> 'a list" where
  "sort_js cmp xs = foldr (sort_insert cmp) xs []"


section \<open>MeasurementContext: the measurement store\<close>

text \<open>
  The provider's state is a reference to an array object. \<open>arrays\<close> is the store of array
  objects, an address being an index into it, and \<open>measurements\<close> is the address held
  by the state. A query made after an update is the query of the next render, which
  sees the updated state.
\<close>

record store =
  arrays :: "Measurement list list"
  measurements :: nat

definition measurements_of :: "store \<Rightarrow> Measurement list" where
  "measurements_of s = arrays s ! measurements s"

definition wf_store :: "store \<Rightarrow> bool" where
  "wf_store s = (measurements s < length (arrays s))"

text \<open>\<open>useState(mockMeasurements)\<close>: the seed list is a parameter.\<close>

definition init_store :: "Measurement list \<Rightarrow> store" where
  "init_store mockMeasurements = \<lparr>arrays = [mockMeasurements], measurements = 0\<rparr>"

text \<open>
  \<open>setMeasurements((prev) => [...prev, measurement])\<close>: a new array, the old elements
  followed by the new one, becomes the state.
\<close>

definition addMeasurement :: "Measurement \<Rightarrow> store \<Rightarrow> store" where
  "addMeasurement measurement s =
     s\<lparr>arrays := arrays s @ [measurements_of s @ [measurement]],
       measurements := length (arrays s)\<rparr>"

text \<open>\<open>measurements.find((m) => m.id === id)\<close>\<close>

definition getMeasurementById :: "string \<Rightarrow> store \<Rightarrow> Measurement option" where
  "getMeasurementById i s = find (\<lambda>m. id' m = i) (measurements_of s)"

text \<open>
  The comparator of \<open>getLatestMeasurement\<close>, \<open>new Date(b.date).getTime() - new
  Date(a.date).getTime()\<close>. Time values are integers below \<open>2^53\<close> in magnitude, so the
  double difference has the sign of the integer difference.
\<close>

definition by_date_desc :: "Measurement \<Rightarrow> Measurement \<Rightarrow> int" where
  "by_date_desc a b = date b - date a"

text \<open>
  \<open>[...measurements]\<close> allocates a copy at a fresh address \<open>c\<close>, \<open>.sort\<close> sorts the array
  at \<open>c\<close> in place, and \<open>[0]\<close> reads its first element. The result comes with the store
  after the call.
\<close>

definition getLatestMeasurement :: "store \<Rightarrow> Measurement option \<times> store" where
  "getLatestMeasurement s =
     (if length (measurements_of s) = 0 then (None, s)
      else
        let c = length (arrays s);
            s1 = s\<lparr>arrays := arrays s @ [measurements_of s]\<rparr>;
            s2 = s1\<lparr>arrays := (arrays s1)[c := sort_js by_date_desc (arrays s1 ! c)]\<rparr>
        in (Some (arrays s2 ! c ! 0), s2))"

text \<open>The operations that \<open>MeasurementContextType\<close> offers, as steps on the store.\<close>

datatype store_op =
  AddMeasurement Measurement
| GetMeasurementById string
| GetLatestMeasurement

fun store_step :: "store \<Rightarrow> store_op \<Rightarrow> store" where
  "store_step s (AddMeasurement m) = addMeasurement m s"
| "store_step s (GetMeasurementById i) = s"
| "store_step s GetLatestMeasurement = snd (getLatestMeasurement s)"

definition run_ops :: "store \<Rightarrow> store_op list \<Rightarrow> store" where
  "run_ops s ops = foldl store_step s ops"

text \<open>
  \<open>useContext(MeasurementContext)\<close>: the value of the innermost enclosing provider, or
  the default given to \<open>createContext\<close>, here \<open>undefined\<close>, when there is none.
  \<open>providers\<close> lists the values of the enclosing providers, innermost first.
\<close>

datatype error = Error string

definition useContext :: "'c option \<Rightarrow> 'c option list \<Rightarrow> 'c option" where
  "useContext dflt providers = (case providers of [] \<Rightarrow> dflt | v # _ \<Rightarrow> v)"

definition useMeasurements :: "'c option list \<Rightarrow> error + 'c" where
  "useMeasurements providers =
     (case useContext None providers of
        None \<Rightarrow> Inl (Error ''useMeasurements must be used within a MeasurementProvider'')
      | Some context \<Rightarrow> Inr context)"


section \<open>DataEntry: the measurement form\<close>

text \<open>
  \<open>formData\<close> is an object of type \<open>Partial<Measurement>\<close>: property names with
  numbers, any of them possibly absent. \<open>field fd name\<close> reads a property; an absent
  property reads as \<open>undefined\<close>. \<open>errors\<close> is a \<open>Record<string, string>\<close>. Both are
  association lists in insertion order, written by \<open>AList.update\<close>, which replaces the
  value of a key that is present and appends a new key.
\<close>

type_synonym form = "(string \<times> jsnum) list"

definition field :: "form \<Rightarrow> string \<Rightarrow> jsnum option" where
  "field fd name = map_of fd name"

text \<open>The initial value given to \<open>useState\<close> for \<open>formData\<close>: no \<open>metabolicAge\<close>.\<close>

definition initial_formData :: form where
  "initial_formData =
     [(''weight'', Fin 0), (''bodyFatMass'', Fin 0), (''bodyFatPercentage'', Fin 0),
      (''skeletalMuscleMass'', Fin 0), (''visceralFat'', Fin 0), (''waterPercentage'', Fin 0),
      (''basalMetabolicRate'', Fin 0)]"

record User =
  user_id :: string
  height :: jsnum

text \<open>
  What \<open>handleSubmit\<close> takes from outside the component: the user of \<open>useUser\<close> (the
  component returns before it defines \<open>handleSubmit\<close> when there is no user), the
  string that this call of \<open>uuidv4()\<close> returns, the time value of \<open>new Date()\<close>, the
  function \<open>calculateBMI\<close> of \<open>utils/healthCalculations\<close>, and the double
  multiplication and division.
\<close>

record env =
  user :: User
  uuidv4 :: string
  now :: int
  calculateBMI :: "jsnum \<Rightarrow> jsnum \<Rightarrow> jsnum"
  js_times :: "jsnum \<Rightarrow> jsnum \<Rightarrow> jsnum"
  js_divide :: "jsnum \<Rightarrow> jsnum \<Rightarrow> jsnum"

text \<open>
  The state of the page: its three \<open>useState\<close> cells, the measurement store behind
  \<open>addMeasurement\<close>, and the paths passed to \<open>navigate\<close> so far.
\<close>

record page =
  formData :: form
  errors :: "(string \<times> string) list"
  formSubmitted :: bool
  measurementStore :: store
  navigated :: "string list"

text \<open>
  \<open>handleChange\<close>, with \<open>numberValue\<close> the result of \<open>parseFloat(value)\<close>: the field is
  set, and a non-empty error message of that field is replaced by the empty string.
\<close>

definition handleChange :: "string \<Rightarrow> jsnum \<Rightarrow> page \<Rightarrow> page" where
  "handleChange name numberValue p =
     (let p1 = p\<lparr>formData := AList.update name numberValue (formData p)\<rparr>
      in case map_of (errors p) name of
           None \<Rightarrow> p1
         | Some msg \<Rightarrow>
             if msg = [] then p1 else p1\<lparr>errors := AList.update name [] (errors p)\<rparr>)"

text \<open>
  \<open>validateForm\<close>: \<open>newErrors\<close> starts empty and each failed check assigns a message to
  its field; \<open>setErrors(newErrors)\<close> stores it, and the result is
  \<open>Object.keys(newErrors).length === 0\<close>.
\<close>

definition validateForm :: "page \<Rightarrow> bool \<times> page" where
  "validateForm p =
     (let fd = formData p;
          e0 = [];
          e1 = (if \<not> truthy (field fd ''weight'')
                   \<or> js_le (to_number (field fd ''weight'')) (Fin 0)
                then AList.update ''weight''
                       ''Weight is required and must be greater than 0'' e0
                else e0);
          e2 = (if \<not> truthy (field fd ''bodyFatPercentage'')
                   \<or> js_lt (to_number (field fd ''bodyFatPercentage'')) (Fin 0)
                then AList.update ''bodyFatPercentage''
                       ''Body fat percentage is required and must be non-negative'' e1
                else e1);
          e3 = (if \<not> truthy (field fd ''skeletalMuscleMass'')
                   \<or> js_le (to_number (field fd ''skeletalMuscleMass'')) (Fin 0)
                then AList.update ''skeletalMuscleMass''
                       ''Skeletal muscle mass is required and must be greater than 0'' e2
                else e2);
          e4 = (if truthy (field fd ''bodyFatPercentage'')
                   \<and> (js_lt (to_number (field fd ''bodyFatPercentage'')) (Fin 0)
                      \<or> js_gt (to_number (field fd ''bodyFatPercentage'')) (Fin 100))
                then AList.update ''bodyFatPercentage''
                       ''Body fat percentage must be between 0 and 100'' e3
                else e3);
          e5 = (if truthy (field fd ''waterPercentage'')
                   \<and> (js_lt (to_number (field fd ''waterPercentage'')) (Fin 0)
                      \<or> js_gt (to_number (field fd ''waterPercentage'')) (Fin 100))
                then AList.update ''waterPercentage''
                       ''Water percentage must be between 0 and 100'' e4
                else e4)
      in (length (map fst e5) = 0, p\<lparr>errors := e5\<rparr>))"

text \<open>
  \<open>handleSubmit\<close>; \<open>e.preventDefault()\<close> acts on the event only and is left out. When
  validation fails it returns after \<open>setFormSubmitted\<close> and \<open>setErrors\<close>. Otherwise
  the three required fields are truthy, hence numbers, and \<open>formData.weight!\<close> reads
  that number. The optional fields \<open>visceralFat\<close>,
  \<open>waterPercentage\<close> and \<open>basalMetabolicRate\<close> are read with \<open>|| 0\<close>; \<open>metabolicAge\<close>
  is copied as it is.
\<close>

definition handleSubmit :: "env \<Rightarrow> page \<Rightarrow> page" where
  "handleSubmit ev p =
     (let p1 = p\<lparr>formSubmitted := True\<rparr>;
          (ok, p2) = validateForm p1
      in if \<not> ok then p2
         else
           let fd = formData p2;
               bmi_v = calculateBMI ev (to_number (field fd ''weight'')) (height (user ev));
               bodyFatMass_v =
                 js_times ev (to_number (field fd ''weight''))
                   (js_divide ev (to_number (field fd ''bodyFatPercentage'')) (Fin 100));
               newMeasurement =
                 \<lparr>id' = uuidv4 ev,
                  userId = user_id (user ev),
                  date = now ev,
                  weight = to_number (field fd ''weight''),
                  bodyFatMass = bodyFatMass_v,
                  bodyFatPercentage = to_number (field fd ''bodyFatPercentage''),
                  skeletalMuscleMass = to_number (field fd ''skeletalMuscleMass''),
                  bmi = bmi_v,
                  pbf = to_number (field fd ''bodyFatPercentage''),
                  visceralFat = or_zero (field fd ''visceralFat''),
                  waterPercentage = or_zero (field fd ''waterPercentage''),
                  basalMetabolicRate = or_zero (field fd ''basalMetabolicRate''),
                  metabolicAge = field fd ''metabolicAge''\<rparr>
           in p2\<lparr>measurementStore := addMeasurement newMeasurement (measurementStore p2),
                 navigated := navigated p2 @ [''/'']\<rparr>)"


section \<open>Example values\<close>

definition example_measurement :: "string \<Rightarrow> int \<Rightarrow> real \<Rightarrow> Measurement" where
  "example_measurement i d w =
     \<lparr>id' = i, userId = ''1'', date = d, weight = Fin w, bodyFatMass = Fin 14,
      bodyFatPercentage = Fin 20, skeletalMuscleMass = Fin 30, bmi = Fin 22, pbf = Fin 20,
      visceralFat = Fin 5, waterPercentage = Fin 55, basalMetabolicRate = Fin 1500,
      metabolicAge = Some (Fin 30)\<rparr>"

text \<open>
  An environment for the examples. Its arithmetic is exact on finite numbers and NaN
  elsewhere, and its BMI is weight over height squared with the height in metres.
\<close>

fun example_times :: "jsnum \<Rightarrow> jsnum \<Rightarrow> jsnum" where
  "example_times (Fin a) (Fin b) = Fin (a * b)"
| "example_times _ _ = NaN"

fun example_divide :: "jsnum \<Rightarrow> jsnum \<Rightarrow> jsnum" where
  "example_divide (Fin a) (Fin b) = (if b = 0 then NaN else Fin (a / b))"
| "example_divide _ _ = NaN"

definition example_env :: env where
  "example_env =
     \<lparr>user = \<lparr>user_id = ''1'', height = Fin 180\<rparr>,
      uuidv4 = ''3f2c'',
      now = 5000,
      calculateBMI = (\<lambda>w h. example_divide w
         (example_times (example_divide h (Fin 100)) (example_divide h (Fin 100)))),
      js_times = example_times,
      js_divide = example_divide\<rparr>"

definition example_page :: "form \<Rightarrow> page" where
  "example_page fd =
     \<lparr>formData = fd, errors = [], formSubmitted = False,
      measurementStore = init_store [example_measurement ''a'' 1000 70],
      navigated = []\<rparr>"

text \<open>
  The page after the user has typed the three required fields into the initial form.
\<close>

definition example_filled :: "real \<Rightarrow> real \<Rightarrow> real \<Rightarrow> page" where
  "example_filled w b m =
     handleChange ''skeletalMuscleMass'' (Fin m)
       (handleChange ''bodyFatPercentage'' (Fin b)
          (handleChange ''weight'' (Fin w) (example_page initial_formData)))"


text \<open>
  Two pages reached from it: one where the user has cleared the \<open>visceralFat\<close> input
  (\<open>parseFloat('')\<close> is NaN) and left the other optional inputs untouched, and one where
  the user has typed a value into each of the three.
\<close>

definition example_cleared :: page where
  "example_cleared = handleChange ''visceralFat'' NaN (example_filled 70 20 30)"

definition example_all_filled :: page where
  "example_all_filled =
     handleChange ''basalMetabolicRate'' (Fin 1500)
       (handleChange ''waterPercentage'' (Fin 55)
          (handleChange ''visceralFat'' (Fin 5) (example_filled 70 20 30)))"

section \<open>Properties of sorting and lookup\<close>

lemma sort_insert_not_Nil: "sort_insert cmp x ys \<noteq> []"
  by (cases ys) simp_all

lemma hd_sort_insert:
  "hd (sort_insert cmp x ys) = (if ys = [] \<or> cmp x (hd ys) \<le> 0 then x else hd ys)"
  by (cases ys) simp_all

lemma sort_js_Nil: "sort_js cmp [] = []"
  by (simp add: sort_js_def)

lemma sort_js_Cons: "sort_js cmp (x # xs) = sort_insert cmp x (sort_js cmp xs)"
  by (simp add: sort_js_def)

lemma sort_js_eq_Nil: "(sort_js cmp xs = []) = (xs = [])"
  by (cases xs) (simp_all add: sort_js_Nil sort_js_Cons sort_insert_not_Nil)

lemma set_sort_insert: "set (sort_insert cmp x ys) = insert x (set ys)"
  by (induction ys) auto

lemma set_sort_js: "set (sort_js cmp xs) = set xs"
  by (induction xs) (simp_all add: sort_js_Nil sort_js_Cons set_sort_insert)

lemma length_sort_insert: "length (sort_insert cmp x ys) = Suc (length ys)"
  by (induction ys) simp_all

lemma length_sort_js: "length (sort_js cmp xs) = length xs"
  by (induction xs) (simp_all add: sort_js_Nil sort_js_Cons length_sort_insert)

lemma hd_sort_js_mem: "xs \<noteq> [] \<Longrightarrow> hd (sort_js cmp xs) \<in> set xs"
  using set_sort_js [of cmp xs] sort_js_eq_Nil [of cmp xs] hd_in_set by blast

lemma by_date_desc_le: "(by_date_desc x y \<le> 0) = (date y \<le> date x)"
  by (simp add: by_date_desc_def)

text \<open>
  \<open>sort_js\<close> with the comparator of \<open>getLatestMeasurement\<close> is the stable sort by
  descending date: a permutation, in descending order, with the measurements of any one
  date in their old order.
\<close>

lemma mset_sort_insert: "mset (sort_insert cmp x ys) = add_mset x (mset ys)"
  by (induction ys) simp_all

lemma mset_sort_js: "mset (sort_js cmp xs) = mset xs"
  by (induction xs) (simp_all add: sort_js_Nil sort_js_Cons mset_sort_insert)

lemma sorted_sort_insert:
  "sorted_wrt (\<lambda>a b. date b \<le> date a) ys \<Longrightarrow>
   sorted_wrt (\<lambda>a b. date b \<le> date a) (sort_insert by_date_desc x ys)"
  by (induction ys) (auto simp: set_sort_insert by_date_desc_le)

lemma sorted_sort_js: "sorted_wrt (\<lambda>a b. date b \<le> date a) (sort_js by_date_desc xs)"
  by (induction xs) (simp_all add: sort_js_Nil sort_js_Cons sorted_sort_insert)

lemma stable_sort_insert:
  "filter (\<lambda>y. date y = d) (sort_insert by_date_desc x ys) = filter (\<lambda>y. date y = d) (x # ys)"
  by (induction ys) (auto simp: by_date_desc_le)

lemma stable_sort_js:
  "filter (\<lambda>y. date y = d) (sort_js by_date_desc xs) = filter (\<lambda>y. date y = d) xs"
  by (induction xs) (simp_all add: sort_js_Nil sort_js_Cons stable_sort_insert)

lemma hd_sort_first_max:
  "\<forall>x\<in>set pre. date x < date a \<Longrightarrow> \<forall>x\<in>set post. date x \<le> date a \<Longrightarrow>
   hd (sort_js by_date_desc (pre @ a # post)) = a"
proof (induction pre)
  case Nil
  show ?case
  proof (cases "post = []")
    case True
    then show ?thesis by (simp add: sort_js_Cons sort_js_Nil)
  next
    case False
    then have "hd (sort_js by_date_desc post) \<in> set post" by (rule hd_sort_js_mem)
    with Nil.prems(2) have "date (hd (sort_js by_date_desc post)) \<le> date a" by blast
    then show ?thesis
      by (simp add: sort_js_Cons hd_sort_insert by_date_desc_le)
  qed
next
  case (Cons p pre)
  then have ih: "hd (sort_js by_date_desc (pre @ a # post)) = a" by simp
  from Cons.prems(1) have "date p < date a" by simp
  then show ?case
    by (simp add: sort_js_Cons hd_sort_insert ih by_date_desc_le sort_js_eq_Nil)
qed

lemma first_max_split:
  "xs \<noteq> [] \<Longrightarrow> \<exists>pre a post. xs = pre @ a # post \<and> (\<forall>x\<in>set pre. date x < date a)
      \<and> (\<forall>x\<in>set post. date x \<le> (date a :: int))"
proof (induction xs)
  case Nil
  then show ?case by simp
next
  case (Cons x xs)
  show ?case
  proof (cases "xs = []")
    case True
    then have "x # xs = [] @ x # []" by simp
    then show ?thesis by (metis empty_iff empty_set)
  next
    case False
    with Cons.IH obtain pre a post where
      d: "xs = pre @ a # post" "\<forall>y\<in>set pre. date y < date a" "\<forall>y\<in>set post. date y \<le> date a"
      by blast
    show ?thesis
    proof (cases "date a \<le> date x")
      case True
      have "x # xs = [] @ x # xs" by simp
      moreover have "\<forall>y\<in>set xs. date y \<le> date x"
        using d True by auto
      ultimately show ?thesis by (metis empty_iff empty_set)
    next
      case False
      have "x # xs = (x # pre) @ a # post" using d(1) by simp
      moreover have "\<forall>y\<in>set (x # pre). date y < date a" using d(2) False by simp
      ultimately show ?thesis using d(3) by blast
    qed
  qed
qed

lemma latest_fst:
  "fst (getLatestMeasurement s) =
     (if measurements_of s = [] then None
      else Some (hd (sort_js by_date_desc (measurements_of s))))"
  by (simp add: getLatestMeasurement_def Let_def hd_conv_nth sort_js_eq_Nil)

lemma latest_snd_arrays:
  "arrays (snd (getLatestMeasurement s)) =
     (if measurements_of s = [] then arrays s
      else arrays s @ [sort_js by_date_desc (measurements_of s)])"
  by (simp add: getLatestMeasurement_def Let_def)

lemma latest_snd_measurements:
  "measurements (snd (getLatestMeasurement s)) = measurements s"
  by (simp add: getLatestMeasurement_def Let_def)

lemma latest_keeps_list:
  "wf_store s \<Longrightarrow> measurements_of (snd (getLatestMeasurement s)) = measurements_of s"
  by (simp add: measurements_of_def [of "snd (getLatestMeasurement s)"] latest_snd_arrays latest_snd_measurements wf_store_def nth_append)
   (simp add: measurements_of_def)

lemma latest_keeps_wf:
  "wf_store s \<Longrightarrow> wf_store (snd (getLatestMeasurement s))"
  by (simp add: wf_store_def latest_snd_arrays latest_snd_measurements)

lemma add_list: "measurements_of (addMeasurement m s) = measurements_of s @ [m]"
  by (simp add: addMeasurement_def measurements_of_def)

lemma add_wf: "wf_store (addMeasurement m s)"
  by (simp add: addMeasurement_def wf_store_def)

lemma step_wf: "wf_store s \<Longrightarrow> wf_store (store_step s op)"
  by (cases op) (simp_all add: add_wf latest_keeps_wf)

lemma step_length:
  "wf_store s \<Longrightarrow> length (measurements_of s) \<le> length (measurements_of (store_step s op))"
  by (cases op) (simp_all add: add_list latest_keeps_list)

lemma run_length:
  "wf_store s \<Longrightarrow> length (measurements_of s) \<le> length (measurements_of (run_ops s ops))"
unfolding run_ops_def
proof (induction ops arbitrary: s)
  case Nil
  show ?case by simp
next
  case (Cons op ops)
  have "length (measurements_of s) \<le> length (measurements_of (store_step s op))"
    using Cons.prems by (rule step_length)
  also have "\<dots> \<le> length (measurements_of (foldl store_step (store_step s op) ops))"
    using Cons.prems by (intro Cons.IH step_wf)
  finally show ?case by simp
qed

lemma wf_init: "wf_store (init_store xs)"
  by (simp add: init_store_def wf_store_def)

lemma init_list: "measurements_of (init_store xs) = xs"
  by (simp add: init_store_def measurements_of_def)

lemma run_wf: "wf_store s \<Longrightarrow> wf_store (run_ops s ops)"
  unfolding run_ops_def by (induction ops arbitrary: s) (simp_all add: step_wf)

lemma find_first_match:
  "\<forall>y\<in>set pre. \<not> P y \<Longrightarrow> P x \<Longrightarrow> find P (pre @ x # post) = Some x"
  by (induction pre) simp_all

lemma find_append_Some: "find P xs = Some x \<Longrightarrow> find P (xs @ ys) = Some x"
  by (induction xs) (auto split: if_splits)

lemma find_no_match: "\<forall>y\<in>set xs. \<not> P y \<Longrightarrow> find P xs = None"
  by (induction xs) simp_all

lemma repeat_latest:
  "wf_store s \<Longrightarrow>
   wf_store (((\<lambda>t. snd (getLatestMeasurement t)) ^^ n) s) \<and>
   measurements_of (((\<lambda>t. snd (getLatestMeasurement t)) ^^ n) s) = measurements_of s"
  by (induction n) (simp_all add: latest_keeps_wf latest_keeps_list)


section \<open>Properties of the measurement store\<close>

text \<open>
  Claim C3. On an empty collection \<open>getLatestMeasurement\<close> returns absent; on a
  non-empty one it returns an element of the collection whose date is greater than or
  equal to the date of every element.
\<close>

theorem getLatestMeasurement_max:
  "(measurements_of s = [] \<longrightarrow> fst (getLatestMeasurement s) = None) \<and>
   (measurements_of s \<noteq> [] \<longrightarrow>
      (\<exists>m\<in>set (measurements_of s). fst (getLatestMeasurement s) = Some m \<and>
         (\<forall>x\<in>set (measurements_of s). date x \<le> date m)))"
proof (intro conjI impI)
  assume "measurements_of s = []"
  then show "fst (getLatestMeasurement s) = None" by (simp add: latest_fst)
next
  assume ne: "measurements_of s \<noteq> []"
  then obtain pre a post where
    d: "measurements_of s = pre @ a # post" "\<forall>x\<in>set pre. date x < date a"
       "\<forall>x\<in>set post. date x \<le> date a"
    using first_max_split by blast
  have "hd (sort_js by_date_desc (measurements_of s)) = a"
    unfolding d(1) using d(2,3) by (rule hd_sort_first_max)
  with ne have r: "fst (getLatestMeasurement s) = Some a" by (simp add: latest_fst)
  have "a \<in> set (measurements_of s)" using d(1) by simp
  moreover have "\<forall>x\<in>set (measurements_of s). date x \<le> date a"
    using d by auto
  ultimately show "\<exists>m\<in>set (measurements_of s). fst (getLatestMeasurement s) = Some m \<and>
         (\<forall>x\<in>set (measurements_of s). date x \<le> date m)"
    using r by blast
qed

theorem getLatestMeasurement_max_witness:
  "measurements_of (init_store []) = [] \<and>
   fst (getLatestMeasurement (init_store [])) = None \<and>
   measurements_of (init_store [example_measurement ''a'' 1000 70,
      example_measurement ''b'' 3000 71, example_measurement ''c'' 2000 72]) \<noteq> [] \<and>
   (\<exists>m\<in>set (measurements_of (init_store [example_measurement ''a'' 1000 70,
      example_measurement ''b'' 3000 71, example_measurement ''c'' 2000 72])).
      fst (getLatestMeasurement (init_store [example_measurement ''a'' 1000 70,
      example_measurement ''b'' 3000 71, example_measurement ''c'' 2000 72])) = Some m \<and>
      (\<forall>x\<in>set (measurements_of (init_store [example_measurement ''a'' 1000 70,
      example_measurement ''b'' 3000 71, example_measurement ''c'' 2000 72])).
         date x \<le> date m))"
  using getLatestMeasurement_max [of "init_store []"]
    getLatestMeasurement_max [of "init_store [example_measurement ''a'' 1000 70,
      example_measurement ''b'' 3000 71, example_measurement ''c'' 2000 72]"]
  by (simp add: init_list)

text \<open>
  Claim C4. When \<open>A\<close> stands before \<open>B\<close> in the collection, both carry the same date,
  that date is the maximum and no element before \<open>A\<close> reaches it, then
  \<open>getLatestMeasurement\<close> returns \<open>A\<close>, and it still returns \<open>A\<close> after any number \<open>n\<close>
  of earlier calls on the unchanged state.
\<close>

theorem getLatestMeasurement_tie:
  assumes "wf_store s"
    and "measurements_of s = pre @ A # mid @ B # post"
    and "date B = date A"
    and "\<forall>x\<in>set pre. date x < date A"
    and "\<forall>x\<in>set (mid @ post). date x \<le> date A"
  shows "fst (getLatestMeasurement (((\<lambda>t. snd (getLatestMeasurement t)) ^^ n) s)) = Some A"
proof -
  let ?t = "((\<lambda>t. snd (getLatestMeasurement t)) ^^ n) s"
  have l: "measurements_of ?t = pre @ A # (mid @ B # post)"
    using repeat_latest [OF assms(1), of n] assms(2) by simp
  have "\<forall>x\<in>set (mid @ B # post). date x \<le> date A"
    using assms(3,5) by auto
  with assms(4) have "hd (sort_js by_date_desc (pre @ A # (mid @ B # post))) = A"
    by (rule hd_sort_first_max)
  then show ?thesis by (simp add: latest_fst l)
qed

theorem getLatestMeasurement_tie_witness:
  "wf_store (init_store [example_measurement ''a'' 1000 70, example_measurement ''b'' 1000 71]) \<and>
   date (example_measurement ''b'' 1000 71) = date (example_measurement ''a'' 1000 70) \<and>
   fst (getLatestMeasurement (((\<lambda>t. snd (getLatestMeasurement t)) ^^ 2)
      (init_store [example_measurement ''a'' 1000 70, example_measurement ''b'' 1000 71])))
     = Some (example_measurement ''a'' 1000 70)"
  using getLatestMeasurement_tie [of "init_store [example_measurement ''a'' 1000 70,
      example_measurement ''b'' 1000 71]" "[]" "example_measurement ''a'' 1000 70" "[]"
      "example_measurement ''b'' 1000 71" "[]" 2]
  by (simp add: init_list wf_init example_measurement_def)

text \<open>
  Claim C5 as stated fails when the id is already stored: the store holds a measurement
  with id \<open>a\<close>, another measurement with id \<open>a\<close> is added, and the lookup returns the
  stored one.
\<close>

theorem getMeasurementById_after_add_counterexample:
  "getMeasurementById (id' (example_measurement ''a'' 2000 80))
     (addMeasurement (example_measurement ''a'' 2000 80)
        (init_store [example_measurement ''a'' 1000 70]))
   \<noteq> Some (example_measurement ''a'' 2000 80)"
  by (simp add: getMeasurementById_def add_list init_list example_measurement_def)

text \<open>
  Claim C5, amended. When no stored measurement has the id of \<open>m\<close>, the lookup of
  \<open>m.id\<close> after \<open>addMeasurement(m)\<close> returns \<open>m\<close>. When the lookup of that id already
  returned a stored measurement \<open>x\<close>, it still returns \<open>x\<close> after \<open>m\<close> is added.
\<close>

theorem getMeasurementById_after_add:
  "((\<forall>x\<in>set (measurements_of s). id' x \<noteq> id' m) \<longrightarrow>
      getMeasurementById (id' m) (addMeasurement m s) = Some m) \<and>
   (getMeasurementById (id' m) s = Some x \<longrightarrow>
      getMeasurementById (id' m) (addMeasurement m s) = Some x)"
proof (intro conjI impI)
  assume "\<forall>x\<in>set (measurements_of s). id' x \<noteq> id' m"
  then show "getMeasurementById (id' m) (addMeasurement m s) = Some m"
    by (simp add: getMeasurementById_def add_list find_first_match)
next
  assume "getMeasurementById (id' m) s = Some x"
  then show "getMeasurementById (id' m) (addMeasurement m s) = Some x"
    by (simp add: getMeasurementById_def add_list find_append_Some)
qed

theorem getMeasurementById_after_add_witness:
  "measurements_of (init_store [example_measurement ''a'' 1000 70])
     = [example_measurement ''a'' 1000 70] \<and>
   id' (example_measurement ''a'' 1000 70) \<noteq> id' (example_measurement ''b'' 2000 80) \<and>
   getMeasurementById (id' (example_measurement ''b'' 2000 80))
     (addMeasurement (example_measurement ''b'' 2000 80)
        (init_store [example_measurement ''a'' 1000 70]))
     = Some (example_measurement ''b'' 2000 80) \<and>
   getMeasurementById (id' (example_measurement ''a'' 2000 80))
     (init_store [example_measurement ''a'' 1000 70])
     = Some (example_measurement ''a'' 1000 70) \<and>
   getMeasurementById (id' (example_measurement ''a'' 2000 80))
     (addMeasurement (example_measurement ''a'' 2000 80)
        (init_store [example_measurement ''a'' 1000 70]))
     = Some (example_measurement ''a'' 1000 70)"
  using getMeasurementById_after_add [where s = "init_store [example_measurement ''a'' 1000 70]"
      and m = "example_measurement ''b'' 2000 80"]
    getMeasurementById_after_add [where s = "init_store [example_measurement ''a'' 1000 70]"
      and m = "example_measurement ''a'' 2000 80" and x = "example_measurement ''a'' 1000 70"]
  by (simp add: getMeasurementById_def init_list example_measurement_def)

text \<open>
  Claim C6. After \<open>addMeasurement(m)\<close> the list is the old list followed by \<open>m\<close>: one
  element longer, \<open>m\<close> last, the old elements in their old order before it. No sequence
  of store operations makes the list shorter.
\<close>

theorem addMeasurement_appends:
  "measurements_of (addMeasurement m s) = measurements_of s @ [m] \<and>
   length (measurements_of (addMeasurement m s)) = length (measurements_of s) + 1 \<and>
   last (measurements_of (addMeasurement m s)) = m \<and>
   take (length (measurements_of s)) (measurements_of (addMeasurement m s)) = measurements_of s \<and>
   (wf_store s \<longrightarrow> length (measurements_of s) \<le> length (measurements_of (run_ops s ops)))"
  by (simp add: add_list run_length)

theorem addMeasurement_appends_witness:
  "wf_store (init_store [example_measurement ''a'' 1000 70]) \<and>
   measurements_of (addMeasurement (example_measurement ''b'' 2000 80)
      (init_store [example_measurement ''a'' 1000 70]))
     = [example_measurement ''a'' 1000 70, example_measurement ''b'' 2000 80] \<and>
   length (measurements_of (init_store [example_measurement ''a'' 1000 70]))
     \<le> length (measurements_of (run_ops (init_store [example_measurement ''a'' 1000 70])
          [GetLatestMeasurement, AddMeasurement (example_measurement ''b'' 2000 80),
           GetMeasurementById ''a'', GetLatestMeasurement]))"
  using addMeasurement_appends [of "example_measurement ''b'' 2000 80"
      "init_store [example_measurement ''a'' 1000 70]"
      "[GetLatestMeasurement, AddMeasurement (example_measurement ''b'' 2000 80),
        GetMeasurementById ''a'', GetLatestMeasurement]"]
  by (simp add: wf_init init_list)

text \<open>
  Claim C7. \<open>getMeasurementById(id)\<close> returns absent when no element has that id, and
  otherwise the first element in insertion order that has it: no element before the
  returned one has the id, whatever follows it.
\<close>

theorem getMeasurementById_first_match:
  "((\<forall>m\<in>set (measurements_of s). id' m \<noteq> i) \<longrightarrow> getMeasurementById i s = None) \<and>
   ((\<exists>m\<in>set (measurements_of s). id' m = i) \<longrightarrow>
      (\<exists>pre m post. measurements_of s = pre @ m # post \<and> id' m = i \<and>
         (\<forall>x\<in>set pre. id' x \<noteq> i) \<and> getMeasurementById i s = Some m))"
proof (intro conjI impI)
  assume "\<forall>m\<in>set (measurements_of s). id' m \<noteq> i"
  then show "getMeasurementById i s = None"
    by (simp add: getMeasurementById_def find_no_match)
next
  assume "\<exists>m\<in>set (measurements_of s). id' m = i"
  then obtain pre m post where
    d: "measurements_of s = pre @ m # post" "id' m = i" "\<forall>x\<in>set pre. id' x \<noteq> i"
    using split_list_first_prop [of "measurements_of s" "\<lambda>m. id' m = i"] by blast
  from d(3,2) have "find (\<lambda>m. id' m = i) (pre @ m # post) = Some m"
    by (intro find_first_match) simp_all
  then have "getMeasurementById i s = Some m"
    by (simp add: getMeasurementById_def d(1))
  with d show "\<exists>pre m post. measurements_of s = pre @ m # post \<and> id' m = i \<and>
         (\<forall>x\<in>set pre. id' x \<noteq> i) \<and> getMeasurementById i s = Some m"
    by blast
qed

theorem getMeasurementById_first_match_witness:
  "list_all (\<lambda>m. id' m \<noteq> ''z'') (measurements_of (init_store
        [example_measurement ''a'' 1000 70, example_measurement ''b'' 2000 71,
         example_measurement ''b'' 3000 72])) \<and>
   getMeasurementById ''z'' (init_store [example_measurement ''a'' 1000 70,
        example_measurement ''b'' 2000 71, example_measurement ''b'' 3000 72]) = None \<and>
   (\<exists>m\<in>set (measurements_of (init_store [example_measurement ''a'' 1000 70,
        example_measurement ''b'' 2000 71, example_measurement ''b'' 3000 72])). id' m = ''b'') \<and>
   (\<exists>pre m post. measurements_of (init_store [example_measurement ''a'' 1000 70,
        example_measurement ''b'' 2000 71, example_measurement ''b'' 3000 72]) = pre @ m # post \<and>
      id' m = ''b'' \<and> (\<forall>x\<in>set pre. id' x \<noteq> ''b'') \<and>
      getMeasurementById ''b'' (init_store [example_measurement ''a'' 1000 70,
        example_measurement ''b'' 2000 71, example_measurement ''b'' 3000 72]) = Some m)"
  using getMeasurementById_first_match [of "init_store [example_measurement ''a'' 1000 70,
        example_measurement ''b'' 2000 71, example_measurement ''b'' 3000 72]" "''z''"]
    getMeasurementById_first_match [of "init_store [example_measurement ''a'' 1000 70,
        example_measurement ''b'' 2000 71, example_measurement ''b'' 3000 72]" "''b''"]
  by (simp add: init_list example_measurement_def)

text \<open>
  Claim C9. With no provider around it \<open>useMeasurements\<close> throws the error with its
  descriptive message, as it does whenever the context is \<open>undefined\<close>; when the context
  is defined it returns the context.
\<close>

theorem useMeasurements_outside_provider:
  "useMeasurements [] = Inl (Error ''useMeasurements must be used within a MeasurementProvider'') \<and>
   (useContext None providers = None \<longrightarrow>
      useMeasurements providers
        = Inl (Error ''useMeasurements must be used within a MeasurementProvider'')) \<and>
   (useContext None providers = Some context \<longrightarrow> useMeasurements providers = Inr context)"
  by (simp add: useMeasurements_def useContext_def)

theorem useMeasurements_outside_provider_witness:
  "useContext None ([] :: store option list) = None \<and>
   useMeasurements ([] :: store option list)
     = Inl (Error ''useMeasurements must be used within a MeasurementProvider'') \<and>
   useContext None [Some (init_store [])] = Some (init_store []) \<and>
   useMeasurements [Some (init_store [])] = Inr (init_store [])"
  using useMeasurements_outside_provider [of "[] :: store option list"]
    useMeasurements_outside_provider [of "[Some (init_store [])]" "init_store []"]
  by (simp add: useContext_def)

text \<open>
  Claim C10. \<open>getLatestMeasurement\<close> leaves the state's reference and the stored list
  as they were, in content and order, and changes no array that existed before the
  call: the sort works on the copy.
\<close>

theorem getLatestMeasurement_keeps_store:
  "wf_store s \<Longrightarrow>
   measurements (snd (getLatestMeasurement s)) = measurements s \<and>
   measurements_of (snd (getLatestMeasurement s)) = measurements_of s \<and>
   (\<forall>a<length (arrays s). arrays (snd (getLatestMeasurement s)) ! a = arrays s ! a)"
  by (simp add: latest_keeps_list latest_snd_measurements latest_snd_arrays nth_append)

theorem getLatestMeasurement_keeps_store_witness:
  "wf_store (init_store [example_measurement ''a'' 1000 70, example_measurement ''b'' 3000 71]) \<and>
   fst (getLatestMeasurement (init_store [example_measurement ''a'' 1000 70,
      example_measurement ''b'' 3000 71])) = Some (example_measurement ''b'' 3000 71) \<and>
   measurements_of (snd (getLatestMeasurement (init_store [example_measurement ''a'' 1000 70,
      example_measurement ''b'' 3000 71])))
     = [example_measurement ''a'' 1000 70, example_measurement ''b'' 3000 71]"
  using getLatestMeasurement_keeps_store [of "init_store [example_measurement ''a'' 1000 70,
      example_measurement ''b'' 3000 71]"]
  by (simp add: wf_init init_list latest_fst sort_js_def by_date_desc_def example_measurement_def)

section \<open>Properties of the measurement form\<close>

lemma validate_fst:
  "fst (validateForm p) =
     (truthy (field (formData p) ''weight'')
      \<and> \<not> js_le (to_number (field (formData p) ''weight'')) (Fin 0)
      \<and> truthy (field (formData p) ''bodyFatPercentage'')
      \<and> \<not> js_lt (to_number (field (formData p) ''bodyFatPercentage'')) (Fin 0)
      \<and> \<not> js_gt (to_number (field (formData p) ''bodyFatPercentage'')) (Fin 100)
      \<and> truthy (field (formData p) ''skeletalMuscleMass'')
      \<and> \<not> js_le (to_number (field (formData p) ''skeletalMuscleMass'')) (Fin 0)
      \<and> \<not> (truthy (field (formData p) ''waterPercentage'')
           \<and> (js_lt (to_number (field (formData p) ''waterPercentage'')) (Fin 0)
              \<or> js_gt (to_number (field (formData p) ''waterPercentage'')) (Fin 100))))"
  unfolding validateForm_def Let_def by auto

lemma truthy_defined: "truthy v \<Longrightarrow> \<exists>n. v = Some n \<and> to_number v = n"
  by (cases v) simp_all

lemma validate_required_defined:
  assumes "fst (validateForm p)"
  shows "\<exists>w b m. field (formData p) ''weight'' = Some w
      \<and> field (formData p) ''bodyFatPercentage'' = Some b
      \<and> field (formData p) ''skeletalMuscleMass'' = Some m"
proof -
  from assms have "truthy (field (formData p) ''weight'')"
    and "truthy (field (formData p) ''bodyFatPercentage'')"
    and "truthy (field (formData p) ''skeletalMuscleMass'')"
    by (simp_all add: validate_fst)
  then show ?thesis by (meson truthy_defined)
qed

lemma validate_snd:
  "measurementStore (snd (validateForm p)) = measurementStore p \<and>
   navigated (snd (validateForm p)) = navigated p \<and>
   formData (snd (validateForm p)) = formData p \<and>
   formSubmitted (snd (validateForm p)) = formSubmitted p"
  by (simp add: validateForm_def Let_def)

lemma validate_submitted:
  "fst (validateForm (p\<lparr>formSubmitted := b\<rparr>)) = fst (validateForm p) \<and>
   errors (snd (validateForm (p\<lparr>formSubmitted := b\<rparr>))) = errors (snd (validateForm p))"
  by (simp add: validateForm_def Let_def)

lemma handleSubmit_rejected:
  "\<not> fst (validateForm p) \<Longrightarrow>
   handleSubmit ev p = snd (validateForm (p\<lparr>formSubmitted := True\<rparr>))"
  using validate_submitted [where p = p and b = True]
  by (simp add: handleSubmit_def Let_def split_beta)

lemma handleSubmit_accepted:
  "fst (validateForm p) \<Longrightarrow>
   measurementStore (handleSubmit ev p) =
     addMeasurement
       \<lparr>id' = uuidv4 ev,
        userId = user_id (user ev),
        date = now ev,
        weight = to_number (field (formData p) ''weight''),
        bodyFatMass = js_times ev (to_number (field (formData p) ''weight''))
           (js_divide ev (to_number (field (formData p) ''bodyFatPercentage'')) (Fin 100)),
        bodyFatPercentage = to_number (field (formData p) ''bodyFatPercentage''),
        skeletalMuscleMass = to_number (field (formData p) ''skeletalMuscleMass''),
        bmi = calculateBMI ev (to_number (field (formData p) ''weight'')) (height (user ev)),
        pbf = to_number (field (formData p) ''bodyFatPercentage''),
        visceralFat = or_zero (field (formData p) ''visceralFat''),
        waterPercentage = or_zero (field (formData p) ''waterPercentage''),
        basalMetabolicRate = or_zero (field (formData p) ''basalMetabolicRate''),
        metabolicAge = field (formData p) ''metabolicAge''\<rparr>
       (measurementStore p)"
  using validate_submitted [where p = p and b = True] validate_snd [of "p\<lparr>formSubmitted := True\<rparr>"]
  by (simp add: handleSubmit_def Let_def split_beta)

lemma weight_error:
  "\<not> truthy (field (formData p) ''weight'')
     \<or> js_le (to_number (field (formData p) ''weight'')) (Fin 0) \<Longrightarrow>
   map_of (errors (snd (validateForm p))) ''weight''
     = Some ''Weight is required and must be greater than 0''"
  unfolding validateForm_def Let_def by (simp add: update_conv')

lemma bfp_required_error:
  "\<not> truthy (field (formData p) ''bodyFatPercentage'') \<Longrightarrow>
   map_of (errors (snd (validateForm p))) ''bodyFatPercentage''
     = Some ''Body fat percentage is required and must be non-negative''"
  unfolding validateForm_def Let_def by (simp add: update_conv')

lemma bfp_range_error:
  "truthy (field (formData p) ''bodyFatPercentage'') \<Longrightarrow>
   js_lt (to_number (field (formData p) ''bodyFatPercentage'')) (Fin 0)
     \<or> js_gt (to_number (field (formData p) ''bodyFatPercentage'')) (Fin 100) \<Longrightarrow>
   map_of (errors (snd (validateForm p))) ''bodyFatPercentage''
     = Some ''Body fat percentage must be between 0 and 100''"
  unfolding validateForm_def Let_def by (simp add: update_conv')

lemma example_filled_form:
  "formData (example_filled w b m) =
     [(''weight'', Fin w), (''bodyFatMass'', Fin 0), (''bodyFatPercentage'', Fin b),
      (''skeletalMuscleMass'', Fin m), (''visceralFat'', Fin 0), (''waterPercentage'', Fin 0),
      (''basalMetabolicRate'', Fin 0)] \<and>
   measurementStore (example_filled w b m) = init_store [example_measurement ''a'' 1000 70] \<and>
   navigated (example_filled w b m) = [] \<and>
   errors (example_filled w b m) = []"
  by (simp add: example_filled_def handleChange_def example_page_def initial_formData_def)

lemma example_cleared_form:
  "formData example_cleared =
     [(''weight'', Fin 70), (''bodyFatMass'', Fin 0), (''bodyFatPercentage'', Fin 20),
      (''skeletalMuscleMass'', Fin 30), (''visceralFat'', NaN), (''waterPercentage'', Fin 0),
      (''basalMetabolicRate'', Fin 0)] \<and>
   measurementStore example_cleared = init_store [example_measurement ''a'' 1000 70]"
  by (simp add: example_cleared_def handleChange_def example_filled_form)

lemma example_all_filled_form:
  "formData example_all_filled =
     [(''weight'', Fin 70), (''bodyFatMass'', Fin 0), (''bodyFatPercentage'', Fin 20),
      (''skeletalMuscleMass'', Fin 30), (''visceralFat'', Fin 5), (''waterPercentage'', Fin 55),
      (''basalMetabolicRate'', Fin 1500)] \<and>
   measurementStore example_all_filled = init_store [example_measurement ''a'' 1000 70]"
  by (simp add: example_all_filled_def handleChange_def example_filled_form)

text \<open>
  Claim C1. The code does not accept the boundary submission: with weight 0.1, body fat
  percentage 0 and skeletal muscle mass 0.1, \<open>validateForm\<close> fails, the only required
  field with an error is \<open>bodyFatPercentage\<close> (0 is falsy, so the field counts as
  missing), and \<open>handleSubmit\<close> neither calls \<open>addMeasurement\<close> nor navigates.
\<close>

theorem boundary_values_rejected:
  assumes "field (formData p) ''weight'' = Some (Fin 0.1)"
    and "field (formData p) ''bodyFatPercentage'' = Some (Fin 0)"
    and "field (formData p) ''skeletalMuscleMass'' = Some (Fin 0.1)"
  shows "\<not> fst (validateForm p) \<and>
    map_of (errors (snd (validateForm p))) ''bodyFatPercentage''
      = Some ''Body fat percentage is required and must be non-negative'' \<and>
    map_of (errors (snd (validateForm p))) ''weight'' = None \<and>
    map_of (errors (snd (validateForm p))) ''skeletalMuscleMass'' = None \<and>
    measurementStore (handleSubmit ev p) = measurementStore p \<and>
    navigated (handleSubmit ev p) = navigated p"
proof -
  have r: "\<not> fst (validateForm p)"
    by (simp add: validate_fst assms)
  have b: "map_of (errors (snd (validateForm p))) ''bodyFatPercentage''
      = Some ''Body fat percentage is required and must be non-negative''"
    by (rule bfp_required_error) (simp add: assms)
  have w: "map_of (errors (snd (validateForm p))) ''weight'' = None"
    unfolding validateForm_def Let_def by (simp add: update_conv' assms)
  have m: "map_of (errors (snd (validateForm p))) ''skeletalMuscleMass'' = None"
    unfolding validateForm_def Let_def by (simp add: update_conv' assms)
  have "handleSubmit ev p = snd (validateForm (p\<lparr>formSubmitted := True\<rparr>))"
    using r by (rule handleSubmit_rejected)
  then have "measurementStore (handleSubmit ev p) = measurementStore p"
    and "navigated (handleSubmit ev p) = navigated p"
    by (simp_all add: validate_snd)
  with r b w m show ?thesis by simp
qed

theorem boundary_values_rejected_witness:
  "field (formData (example_filled 0.1 0 0.1)) ''weight'' = Some (Fin 0.1) \<and>
   field (formData (example_filled 0.1 0 0.1)) ''bodyFatPercentage'' = Some (Fin 0) \<and>
   field (formData (example_filled 0.1 0 0.1)) ''skeletalMuscleMass'' = Some (Fin 0.1) \<and>
   \<not> fst (validateForm (example_filled 0.1 0 0.1)) \<and>
   errors (snd (validateForm (example_filled 0.1 0 0.1)))
     = [(''bodyFatPercentage'', ''Body fat percentage is required and must be non-negative'')] \<and>
   measurements_of (measurementStore (handleSubmit example_env (example_filled 0.1 0 0.1)))
     = [example_measurement ''a'' 1000 70]"
  using boundary_values_rejected [of "example_filled 0.1 0 0.1" example_env]
  by (simp add: example_filled_form field_def validateForm_def init_list)

text \<open>
  Claim C2 as stated fails for \<open>metabolicAge\<close>: the initial form with the three
  required fields typed in passes validation, has no \<open>metabolicAge\<close>, and the
  constructed record holds \<open>undefined\<close> there.
\<close>

theorem optional_fields_default_counterexample:
  "fst (validateForm (example_filled 70 20 30)) \<and>
   field (formData (example_filled 70 20 30)) ''metabolicAge'' = None \<and>
   metabolicAge (last (measurements_of (measurementStore
      (handleSubmit example_env (example_filled 70 20 30))))) = None"
proof -
  have ok: "fst (validateForm (example_filled 70 20 30))"
    by (simp add: validate_fst example_filled_form field_def js_gt_def)
  have "field (formData (example_filled 70 20 30)) ''metabolicAge'' = None"
    by (simp add: example_filled_form field_def)
  then show ?thesis
    using ok by (simp add: handleSubmit_accepted [OF ok] add_list)
qed

text \<open>
  Claim C2, amended. When validation passes, \<open>handleSubmit\<close> appends one record. In
  it each of \<open>visceralFat\<close>, \<open>waterPercentage\<close> and \<open>basalMetabolicRate\<close> is 0 when
  the form's value is falsy, that is absent, NaN (a cleared input) or 0 (an untouched
  one), and is the form's number when that is truthy; \<open>metabolicAge\<close> is what the form
  holds, absent when the form has none.
\<close>

theorem optional_fields_default:
  assumes "fst (validateForm p)"
  shows "\<exists>m. measurements_of (measurementStore (handleSubmit ev p))
           = measurements_of (measurementStore p) @ [m] \<and>
     (\<not> truthy (field (formData p) ''visceralFat'') \<longrightarrow> visceralFat m = Fin 0) \<and>
     (\<not> truthy (field (formData p) ''waterPercentage'') \<longrightarrow> waterPercentage m = Fin 0) \<and>
     (\<not> truthy (field (formData p) ''basalMetabolicRate'') \<longrightarrow> basalMetabolicRate m = Fin 0) \<and>
     (\<forall>n. truthy (Some n) \<and> field (formData p) ''visceralFat'' = Some n
          \<longrightarrow> visceralFat m = n) \<and>
     (\<forall>n. truthy (Some n) \<and> field (formData p) ''waterPercentage'' = Some n
          \<longrightarrow> waterPercentage m = n) \<and>
     (\<forall>n. truthy (Some n) \<and> field (formData p) ''basalMetabolicRate'' = Some n
          \<longrightarrow> basalMetabolicRate m = n) \<and>
     metabolicAge m = field (formData p) ''metabolicAge''"
  by (simp add: handleSubmit_accepted [OF assms] add_list or_zero_def)

theorem optional_fields_default_witness:
  "fst (validateForm example_cleared) \<and>
   field (formData example_cleared) ''visceralFat'' = Some NaN \<and>
   field (formData example_cleared) ''waterPercentage'' = Some (Fin 0) \<and>
   field (formData example_cleared) ''basalMetabolicRate'' = Some (Fin 0) \<and>
   \<not> truthy (field (formData example_cleared) ''visceralFat'') \<and>
   \<not> truthy (field (formData example_cleared) ''waterPercentage'') \<and>
   \<not> truthy (field (formData example_cleared) ''basalMetabolicRate'') \<and>
   (\<exists>m. measurements_of (measurementStore (handleSubmit example_env example_cleared))
        = [example_measurement ''a'' 1000 70, m] \<and>
      visceralFat m = Fin 0 \<and> waterPercentage m = Fin 0 \<and> basalMetabolicRate m = Fin 0 \<and>
      metabolicAge m = None) \<and>
   fst (validateForm example_all_filled) \<and>
   (\<exists>m. measurements_of (measurementStore (handleSubmit example_env example_all_filled))
        = [example_measurement ''a'' 1000 70, m] \<and>
      visceralFat m = Fin 5 \<and> waterPercentage m = Fin 55 \<and> basalMetabolicRate m = Fin 1500 \<and>
      metabolicAge m = None)"
  using optional_fields_default [of example_cleared example_env]
    optional_fields_default [of example_all_filled example_env]
  by (simp add: validate_fst field_def example_cleared_form example_all_filled_form init_list
      js_gt_def)

text \<open>
  Claim C8. A form with weight 0 fails validation with the weight message on the
  \<open>weight\<close> field; a form with body fat percentage 150 fails with the range message
  on the \<open>bodyFatPercentage\<close> field; and whenever \<open>validateForm\<close> fails,
  \<open>handleSubmit\<close> leaves the measurement store as it was and does not navigate.
\<close>

theorem validation_failure_blocks_submit:
  "(field (formData p) ''weight'' = Some (Fin 0) \<longrightarrow>
      \<not> fst (validateForm p) \<and>
      map_of (errors (snd (validateForm p))) ''weight''
        = Some ''Weight is required and must be greater than 0'') \<and>
   (field (formData p) ''bodyFatPercentage'' = Some (Fin 150) \<longrightarrow>
      \<not> fst (validateForm p) \<and>
      map_of (errors (snd (validateForm p))) ''bodyFatPercentage''
        = Some ''Body fat percentage must be between 0 and 100'') \<and>
   (\<not> fst (validateForm p) \<longrightarrow>
      measurementStore (handleSubmit ev p) = measurementStore p \<and>
      navigated (handleSubmit ev p) = navigated p)"
proof (intro conjI impI)
  assume w: "field (formData p) ''weight'' = Some (Fin 0)"
  then show "\<not> fst (validateForm p)" by (simp add: validate_fst)
  from w show "map_of (errors (snd (validateForm p))) ''weight''
        = Some ''Weight is required and must be greater than 0''"
    by (intro weight_error) simp
next
  assume b: "field (formData p) ''bodyFatPercentage'' = Some (Fin 150)"
  then show "\<not> fst (validateForm p)" by (simp add: validate_fst js_gt_def)
  from b show "map_of (errors (snd (validateForm p))) ''bodyFatPercentage''
        = Some ''Body fat percentage must be between 0 and 100''"
    by (intro bfp_range_error) (simp_all add: js_gt_def)
next
  assume r: "\<not> fst (validateForm p)"
  then have h: "handleSubmit ev p = snd (validateForm (p\<lparr>formSubmitted := True\<rparr>))"
    by (rule handleSubmit_rejected)
  show "measurementStore (handleSubmit ev p) = measurementStore p"
    by (simp add: h validate_snd)
  show "navigated (handleSubmit ev p) = navigated p"
    by (simp add: h validate_snd)
qed

theorem validation_failure_blocks_submit_witness:
  "field (formData (example_filled 0 150 30)) ''weight'' = Some (Fin 0) \<and>
   field (formData (example_filled 0 150 30)) ''bodyFatPercentage'' = Some (Fin 150) \<and>
   \<not> fst (validateForm (example_filled 0 150 30)) \<and>
   errors (snd (validateForm (example_filled 0 150 30)))
     = [(''weight'', ''Weight is required and must be greater than 0''),
        (''bodyFatPercentage'', ''Body fat percentage must be between 0 and 100'')] \<and>
   measurementStore (handleSubmit example_env (example_filled 0 150 30))
     = init_store [example_measurement ''a'' 1000 70]"
  using validation_failure_blocks_submit [of "example_filled 0 150 30" example_env]
  by (simp add: example_filled_form field_def validateForm_def js_gt_def)


end
